theory Spec2Isabelle
  imports Main
begin

section \<open>Python values, errors and strings\<close>

text \<open>
  The wrangler (\<^verbatim>\<open>osm_wrangler.py\<close>) and the auditor (\<^verbatim>\<open>osm_auditor.py\<close>) work on Python
  strings. A string is modelled as a \<^typ>\<open>string\<close> whose characters are read as ASCII code
  points; the character classes and case conversions below are Python's on ASCII
  (\<^verbatim>\<open>str.isspace\<close>, \<^verbatim>\<open>str.isdigit\<close>, \<^verbatim>\<open>\w\<close>, \<^verbatim>\<open>str.lower\<close>, \<^verbatim>\<open>str.capitalize\<close>). Code points
  above 127 are outside the model: they are kept as characters that have no case and
  belong to no class.
\<close>

datatype error =
  IndexError | KeyError | ValueError | TypeError | AttributeError
  | UnboundLocalError | RequestError

text \<open>The values a tag's \<^verbatim>\<open>v\<close> takes in the wrangler: \<^verbatim>\<open>None\<close>, a \<^verbatim>\<open>str\<close>, an \<^verbatim>\<open>int\<close>, or
  the two-string list stored in \<^verbatim>\<open>pop_est\<close>. Python's \<^verbatim>\<open>==\<close> on them is equality of the
  datatype: values of different types are never equal.\<close>

datatype pyval = PNone | PStr string | PInt int | PList "string list"

definition code :: "char \<Rightarrow> nat" where
  "code c = of_char c"

definition is_ascii :: "char \<Rightarrow> bool" where
  "is_ascii c \<longleftrightarrow> code c < 128"

definition is_space :: "char \<Rightarrow> bool" where
  "is_space c \<longleftrightarrow> (9 \<le> code c \<and> code c \<le> 13) \<or> (28 \<le> code c \<and> code c \<le> 32)"

definition is_digit :: "char \<Rightarrow> bool" where
  "is_digit c \<longleftrightarrow> 48 \<le> code c \<and> code c \<le> 57"

definition is_upper :: "char \<Rightarrow> bool" where
  "is_upper c \<longleftrightarrow> 65 \<le> code c \<and> code c \<le> 90"

definition is_lower :: "char \<Rightarrow> bool" where
  "is_lower c \<longleftrightarrow> 97 \<le> code c \<and> code c \<le> 122"

definition is_word :: "char \<Rightarrow> bool" where
  \<comment> \<open>the regular expression class \<^verbatim>\<open>\w\<close>\<close>
  "is_word c \<longleftrightarrow> is_upper c \<or> is_lower c \<or> is_digit c \<or> c = CHR ''_''"

definition lower_char :: "char \<Rightarrow> char" where
  "lower_char c = (if is_upper c then char_of (code c + 32) else c)"

definition upper_char :: "char \<Rightarrow> char" where
  "upper_char c = (if is_lower c then char_of (code c - 32) else c)"

definition lower :: "string \<Rightarrow> string" where
  \<comment> \<open>\<^verbatim>\<open>s.lower()\<close>\<close>
  "lower s = map lower_char s"

definition capitalize :: "string \<Rightarrow> string" where
  \<comment> \<open>\<^verbatim>\<open>s.capitalize()\<close>: first character upper case, the rest lower case\<close>
  "capitalize s = (case s of [] \<Rightarrow> [] | c # cs \<Rightarrow> upper_char c # map lower_char cs)"

definition isdigit :: "string \<Rightarrow> bool" where
  \<comment> \<open>\<^verbatim>\<open>s.isdigit()\<close>: false on the empty string\<close>
  "isdigit s \<longleftrightarrow> s \<noteq> [] \<and> list_all is_digit s"

definition strip_chars :: "(char \<Rightarrow> bool) \<Rightarrow> string \<Rightarrow> string" where
  "strip_chars p s = rev (dropWhile p (rev (dropWhile p s)))"

definition strip :: "string \<Rightarrow> string" where
  \<comment> \<open>\<^verbatim>\<open>s.strip()\<close>\<close>
  "strip s = strip_chars is_space s"

definition strip_dot :: "string \<Rightarrow> string" where
  \<comment> \<open>\<^verbatim>\<open>s.strip('.')\<close>\<close>
  "strip_dot s = strip_chars (\<lambda>c. c = CHR ''.'') s"

fun split_on :: "char \<Rightarrow> string \<Rightarrow> string list" where
  \<comment> \<open>\<^verbatim>\<open>s.split(sep)\<close> for a one-character separator: never the empty list\<close>
  "split_on sep [] = [[]]"
| "split_on sep (c # cs) =
     (if c = sep then [] # split_on sep cs
      else (case split_on sep cs of
              [] \<Rightarrow> [[c]]
            | w # ws \<Rightarrow> (c # w) # ws))"

fun join :: "string \<Rightarrow> string list \<Rightarrow> string" where
  \<comment> \<open>\<^verbatim>\<open>sep.join(xs)\<close>\<close>
  "join sep [] = []"
| "join sep [x] = x"
| "join sep (x # y # ys) = x @ sep @ join sep (y # ys)"

function sub_pound :: "string \<Rightarrow> string" where
  \<comment> \<open>\<^verbatim>\<open>re.sub("#\w+", "", s)\<close>: every leftmost, longest match is deleted\<close>
  "sub_pound [] = []"
| "sub_pound [c] = [c]"
| "sub_pound (c # d # cs) =
     (if c = CHR ''#'' \<and> is_word d then sub_pound (dropWhile is_word cs)
      else c # sub_pound (d # cs))"
  by pat_completeness auto
termination
proof (relation "measure length")
  fix c d :: char and cs :: string
  show "(dropWhile is_word cs, c # d # cs) \<in> measure length"
    using length_dropWhile_le [of is_word cs] by simp
qed simp_all

section \<open>Python lists\<close>

definition py_index :: "'a list \<Rightarrow> int \<Rightarrow> 'a option" where
  \<comment> \<open>\<^verbatim>\<open>xs[i]\<close>: a negative index counts from the end; \<^const>\<open>None\<close> is IndexError\<close>
  "py_index xs i =
     (let n = int (length xs); j = (if i < 0 then i + n else i)
      in if 0 \<le> j \<and> j < n then Some (xs ! nat j) else None)"

definition py_pop :: "'a list \<Rightarrow> int \<Rightarrow> ('a \<times> 'a list) option" where
  \<comment> \<open>\<^verbatim>\<open>xs.pop(i)\<close>: the element and the list without it; \<^const>\<open>None\<close> is IndexError\<close>
  "py_pop xs i =
     (let n = int (length xs); j = (if i < 0 then i + n else i)
      in if 0 \<le> j \<and> j < n then Some (xs ! nat j, take (nat j) xs @ drop (Suc (nat j)) xs)
         else None)"

definition py_insert :: "int \<Rightarrow> 'a \<Rightarrow> 'a list \<Rightarrow> 'a list" where
  \<comment> \<open>\<^verbatim>\<open>xs.insert(i, v)\<close>: the index is clamped to the list, never an error\<close>
  "py_insert i v xs =
     (let n = int (length xs);
          j = (if i < 0 then max 0 (i + n) else min i n)
      in take (nat j) xs @ v # drop (nat j) xs)"

section \<open>The wrangler's state\<close>

text \<open>
  The four correction logs are files the wrangler only appends to. A line is kept as the
  values \<^verbatim>\<open>str.format\<close> puts into it, in the order of the format string. The requests sent
  to the geocoding service are kept as the coordinate strings they were made from.
\<close>

record wrangler =
  cleaned_streets :: "(string \<times> string) list"
  cleaned_cities :: "(string \<times> string) list"
  cleaned_zipcodes :: "(string \<times> pyval) list"
  cleaned_population :: "(string \<times> int \<times> pyval) list"
  requests :: "(string \<times> string) list"

section \<open>shape\_streetname\<close>

definition directions :: "string list" where
  "directions = [''North'', ''South'', ''East'', ''West'']"

definition direc_d :: "string \<rightharpoonup> string" where
  "direc_d = map_of [(''N'', ''North''), (''S'', ''South''), (''E'', ''East''), (''W'', ''West'')]"

definition street_types_d :: "string \<rightharpoonup> string" where
  "street_types_d = map_of
     [(''blvd'', ''Boulevard''), (''st'', ''Street''), (''ave'', ''Avenue''),
      (''hwy'', ''Highway''), (''IH'', ''Interstate Highway''), (''cir'', ''Circle''),
      (''ct'', ''Court''), (''cv'', ''Cove''), (''dr'', ''Drive''), (''ln'', ''Lane''),
      (''rd'', ''Road''), (''pkwy'', ''Parkway'')]"

fun correct_direction :: "int list \<Rightarrow> string list \<Rightarrow> error + string list" where
  \<comment> \<open>the loop \<^verbatim>\<open>for i in [0, len(street_elements)-1]\<close>, over the list of its indices\<close>
  "correct_direction [] xs = Inr xs"
| "correct_direction (i # is) xs =
     (case py_index xs i of
        None \<Rightarrow> Inl IndexError
      | Some e \<Rightarrow>
          (case direc_d e of
             Some d \<Rightarrow>
               (case py_pop xs i of
                  None \<Rightarrow> Inl IndexError
                | Some (_, rest) \<Rightarrow> Inr (py_insert 0 d rest))
           | None \<Rightarrow>
               if capitalize e \<in> set directions then
                 (case py_pop xs i of
                    None \<Rightarrow> Inl IndexError
                  | Some (p, rest) \<Rightarrow> Inr (py_insert 0 (capitalize p) rest))
               else correct_direction is xs))"

fun correct_type :: "nat list \<Rightarrow> string list \<Rightarrow> error + string list" where
  \<comment> \<open>the loop \<^verbatim>\<open>for i in range(len(street_elements))\<close>, over the list of its indices; the
      index \<^verbatim>\<open>len(street_elements)-1\<close> is evaluated before the \<^verbatim>\<open>pop\<close>, as Python evaluates
      arguments from left to right\<close>
  "correct_type [] xs = Inr xs"
| "correct_type (i # is) xs =
     (case py_index xs (int i) of
        None \<Rightarrow> Inl IndexError
      | Some e \<Rightarrow>
          (case street_types_d (lower e) of
             None \<Rightarrow> correct_type is xs
           | Some t \<Rightarrow>
               if lower e = ''hwy'' then Inr (xs[i := t])
               else
                 (let k = int (length xs) - 1 in
                  case py_pop xs (int i) of
                    None \<Rightarrow> Inl IndexError
                  | Some (p, rest) \<Rightarrow>
                      (case street_types_d (lower p) of
                         None \<Rightarrow> Inl KeyError
                       | Some t' \<Rightarrow> correct_type is (py_insert k t' rest)))))"

declare correct_type.simps(2) [simp del]

definition shape_streetname :: "wrangler \<Rightarrow> string \<Rightarrow> error + (string \<times> wrangler)" where
  "shape_streetname w street0 =
     (let orig_street = street0;
          street = strip (sub_pound street0);
          street_elements = map strip_dot (split_on CHR '' '' street)
      in case py_index street_elements 0 of
           None \<Rightarrow> Inl IndexError
         | Some e0 \<Rightarrow>
             (let street_elements = (if isdigit e0 then drop 1 street_elements else street_elements)
              in case correct_direction [0, int (length street_elements) - 1] street_elements of
                   Inl err \<Rightarrow> Inl err
                 | Inr street_elements \<Rightarrow>
                     (case correct_type [0 ..< length street_elements] street_elements of
                        Inl err \<Rightarrow> Inl err
                      | Inr street_elements \<Rightarrow>
                          (let new_street = join '' '' (map capitalize street_elements)
                           in if street \<noteq> new_street
                              then Inr (new_street,
                                        w\<lparr>cleaned_streets := cleaned_streets w @ [(orig_street, new_street)]\<rparr>)
                              else Inr (new_street, w)))))"

definition w0 :: wrangler where
  \<comment> \<open>the state after \<^verbatim>\<open>__init__\<close>: empty logs, nothing requested\<close>
  "w0 = \<lparr>cleaned_streets = [], cleaned_cities = [], cleaned_zipcodes = [],
         cleaned_population = [], requests = []\<rparr>"

section \<open>Parsing numbers\<close>

fun adjacent_underscores :: "string \<Rightarrow> bool" where
  "adjacent_underscores [] = False"
| "adjacent_underscores [c] = False"
| "adjacent_underscores (c # d # cs) =
     ((c = CHR ''_'' \<and> d = CHR ''_'') \<or> adjacent_underscores (d # cs))"

definition digitpart :: "string \<Rightarrow> bool" where
  \<comment> \<open>digits, with single underscores allowed between two digits\<close>
  "digitpart s \<longleftrightarrow>
     s \<noteq> [] \<and> is_digit (hd s) \<and> is_digit (last s)
     \<and> list_all (\<lambda>c. is_digit c \<or> c = CHR ''_'') s \<and> \<not> adjacent_underscores s"

definition digits_value :: "string \<Rightarrow> int" where
  "digits_value s = foldl (\<lambda>a c. 10 * a + (int (code c) - 48)) 0 (filter is_digit s)"

definition is_cspace :: "char \<Rightarrow> bool" where
  \<comment> \<open>the white space \<^verbatim>\<open>int\<close> and \<^verbatim>\<open>float\<close> skip around an ASCII string: tab to carriage
      return, and the space; not the separators 28 to 31 that \<^verbatim>\<open>str.strip\<close> removes\<close>
  "is_cspace c \<longleftrightarrow> (9 \<le> code c \<and> code c \<le> 13) \<or> code c = 32"

definition max_str_digits :: nat where
  \<comment> \<open>the interpreter's default limit on the digits of a decimal string,
      \<^verbatim>\<open>sys.get_int_max_str_digits()\<close>\<close>
  "max_str_digits = 4300"

definition int_digits :: "string \<Rightarrow> int option" where
  \<comment> \<open>the unsigned part of an integer literal; more digits than the limit is ValueError\<close>
  "int_digits ds =
     (if digitpart ds \<and> length (filter is_digit ds) \<le> max_str_digits
      then Some (digits_value ds) else None)"

definition py_int :: "string \<Rightarrow> int option" where
  \<comment> \<open>\<^verbatim>\<open>int(s)\<close> for a string; \<^const>\<open>None\<close> is ValueError\<close>
  "py_int s =
     (case strip_chars is_cspace s of
        [] \<Rightarrow> None
      | c # cs \<Rightarrow>
          if c = CHR ''-'' then map_option uminus (int_digits cs)
          else if c = CHR ''+'' then int_digits cs
          else int_digits (c # cs))"

definition unsigned :: "string \<Rightarrow> string" where
  "unsigned s =
     (case s of [] \<Rightarrow> [] | c # cs \<Rightarrow> if c = CHR ''+'' \<or> c = CHR ''-'' then cs else c # cs)"

definition number_ok :: "string \<Rightarrow> bool" where
  \<comment> \<open>digits with at most one point and a digit on at least one side of it\<close>
  "number_ok m =
     (let a = takeWhile (\<lambda>c. c \<noteq> CHR ''.'') m;
          r = dropWhile (\<lambda>c. c \<noteq> CHR ''.'') m
      in if r = [] then digitpart a
         else (a = [] \<and> digitpart (tl r)) \<or> (digitpart a \<and> (tl r = [] \<or> digitpart (tl r))))"

definition float_ok :: "string \<Rightarrow> bool" where
  \<comment> \<open>the strings \<^verbatim>\<open>float(s)\<close> accepts; on the others it raises ValueError\<close>
  "float_ok s =
     (let u = unsigned (strip_chars is_cspace s);
          m = takeWhile (\<lambda>c. c \<noteq> CHR ''e'' \<and> c \<noteq> CHR ''E'') u;
          r = dropWhile (\<lambda>c. c \<noteq> CHR ''e'' \<and> c \<noteq> CHR ''E'') u
      in lower u = ''inf'' \<or> lower u = ''infinity'' \<or> lower u = ''nan''
         \<or> (if r = [] then number_ok m else number_ok m \<and> digitpart (unsigned (tl r))))"

section \<open>get\_zcode and shape\_zipcode\<close>

text \<open>
  The geocoding service is outside the program. It is a parameter: a function from the
  coordinates of a request to what \<^verbatim>\<open>requests.get\<close> and \<^verbatim>\<open>response.json()\<close> give.
  \<^item> \<open>NoResponse\<close>: the request raises.
  \<^item> \<open>Response comps msg\<close>: \<open>comps\<close> is the value of
    \<^verbatim>\<open>response.json()['results'][0]['address_components']\<close>, each component with its
    \<^verbatim>\<open>types\<close> and its \<^verbatim>\<open>long_name\<close>, or \<^const>\<open>None\<close> when that expression raises; \<open>msg\<close> is
    \<^verbatim>\<open>response.json()['error_message']\<close>, or \<^const>\<open>None\<close> when that raises.
\<close>

datatype http_result =
  NoResponse
  | Response "(string list \<times> string) list option" "string option"

type_synonym geocoder = "string \<Rightarrow> string \<Rightarrow> http_result"

fun postal_codes :: "(string list \<times> string) list \<Rightarrow> error + string list" where
  \<comment> \<open>\<^verbatim>\<open>[compon['long_name'] for compon in address_components
        if compon['types'][0] == 'postal_code']\<close>\<close>
  "postal_codes [] = Inr []"
| "postal_codes ((types, long_name) # cs) =
     (case types of
        [] \<Rightarrow> Inl IndexError
      | t # _ \<Rightarrow>
          (case postal_codes cs of
             Inl err \<Rightarrow> Inl err
           | Inr zs \<Rightarrow> Inr (if t = ''postal_code'' then long_name # zs else zs)))"

definition get_zcode ::
  "geocoder \<Rightarrow> wrangler \<Rightarrow> string option \<Rightarrow> string option \<Rightarrow> error + (pyval \<times> wrangler)" where
  \<comment> \<open>\<^verbatim>\<open>lat\<close> and \<^verbatim>\<open>lon\<close> come from \<^verbatim>\<open>element.get\<close>: a \<^verbatim>\<open>str\<close>, or \<^verbatim>\<open>None\<close> when the attribute is
      missing\<close>
  "get_zcode geo w lat lon =
     (case lat of
        None \<Rightarrow> Inr (PNone, w)
      | Some la \<Rightarrow>
     (case lon of
        None \<Rightarrow> Inr (PNone, w)
      | Some lo \<Rightarrow>
          if \<not> float_ok la then Inl ValueError
          else if \<not> float_ok lo then Inl ValueError
          else
            (let w' = w\<lparr>requests := requests w @ [(la, lo)]\<rparr>
             in case geo la lo of
                  NoResponse \<Rightarrow> Inl RequestError
                | Response comps msg \<Rightarrow>
                    (case comps of
                       None \<Rightarrow> (case msg of None \<Rightarrow> Inl KeyError | Some _ \<Rightarrow> Inr (PNone, w'))
                     | Some cs \<Rightarrow>
                         (case postal_codes cs of
                            Inl err \<Rightarrow> Inl err
                          | Inr [] \<Rightarrow> Inl IndexError
                          | Inr (zcode # _) \<Rightarrow>
                              if zcode \<noteq> [] then
                                (case py_int zcode of
                                   None \<Rightarrow> Inl ValueError
                                 | Some n \<Rightarrow> Inr (PInt n, w'))
                              else Inr (PNone, w'))))))"

function findall_d5 :: "string \<Rightarrow> string list" where
  \<comment> \<open>\<^verbatim>\<open>re.findall(r'(\d{5})', s)\<close>: the runs of five digits, left to right, not overlapping\<close>
  "findall_d5 s =
     (if length s < 5 then []
      else if list_all is_digit (take 5 s) then take 5 s # findall_d5 (drop 5 s)
      else findall_d5 (tl s))"
  by pat_completeness auto
termination
  by (relation "measure length") auto

declare findall_d5.simps [simp del]

definition shape_zipcode ::
  "geocoder \<Rightarrow> wrangler \<Rightarrow> pyval \<Rightarrow> string option \<Rightarrow> string option \<Rightarrow> error + (pyval \<times> wrangler)" where
  "shape_zipcode geo w v lat lon =
     (case v of
        PStr zcode0 \<Rightarrow>
          (let zcode = filter is_ascii zcode0;
               new_zcode = findall_d5 zcode
           in if new_zcode \<noteq> [] \<and> hd (hd new_zcode) = CHR ''7'' then
                Inr (PStr (hd new_zcode),
                     w\<lparr>cleaned_zipcodes := cleaned_zipcodes w @ [(zcode, PStr (hd new_zcode))]\<rparr>)
              else
                (case get_zcode geo w lat lon of
                   Inl err \<Rightarrow> Inl err
                 | Inr (new, w') \<Rightarrow>
                     Inr (new, w'\<lparr>cleaned_zipcodes := cleaned_zipcodes w' @ [(zcode, new)]\<rparr>)))
      | _ \<Rightarrow> Inl AttributeError)"

section \<open>shape\_city\<close>

definition cities :: "string list" where
  "cities =
     [''Austin'', ''Georgetown'', ''Creedmoor'', ''Dripping Springs'',
      ''Taylor'', ''West Lake Hills'', ''Cedar Park'', ''Elgin'', ''Lakeway'',
      ''Bastrop'', ''Buda'', ''Cedar Creek'', ''Manchaca'',
      ''Spicewood'', ''Dale'', ''Kyle'', ''Leander'', ''San Marcos'', ''Manor'',
      ''Lago Vista'', ''Maxwell'', ''Sunset Valley'', ''Del Valle'',
      ''Smithville'', ''Lost Pines'', ''Webberville'', ''Bee Cave'',
      ''Spicewood'', ''Elgin'', ''Wimberley'', ''Pflugerville'', ''Round Rock'',
      ''Hutto'', ''Jonestown'', ''Barton Creek'', ''Driftwood'', ''Liberty Hill'',
      ''Leander'']"

fun starts_with :: "string \<Rightarrow> string \<Rightarrow> bool" where
  "starts_with [] s = True"
| "starts_with (p # ps) [] = False"
| "starts_with (p # ps) (c # cs) = (p = c \<and> starts_with ps cs)"

fun contains :: "string \<Rightarrow> string \<Rightarrow> bool" where
  \<comment> \<open>\<open>contains p s\<close>: \<open>p\<close> occurs in \<open>s\<close>\<close>
  "contains p [] = (p = [])"
| "contains p (c # cs) = (starts_with p (c # cs) \<or> contains p cs)"

fun shape_city_loop :: "string list \<Rightarrow> wrangler \<Rightarrow> string \<Rightarrow> pyval \<times> wrangler" where
  \<comment> \<open>\<^verbatim>\<open>for name in cities\<close>; the names are letters and spaces only, so the pattern
      \<^verbatim>\<open>temp\<close> matches literally, and \<^verbatim>\<open>re.IGNORECASE\<close> compares lower-cased text\<close>
  "shape_city_loop [] w city = (PNone, w)"
| "shape_city_loop (name # names) w city =
     (let temp = filter (\<lambda>c. c \<noteq> CHR '' '') name;
          city = filter (\<lambda>c. \<not> is_space c) city
      in if contains (lower temp) (lower city)
         then (PStr name, w\<lparr>cleaned_cities := cleaned_cities w @ [(city, name)]\<rparr>)
         else shape_city_loop names w city)"

definition shape_city :: "wrangler \<Rightarrow> pyval \<Rightarrow> error + (pyval \<times> wrangler)" where
  "shape_city w v =
     (case v of
        PStr city \<Rightarrow> Inr (shape_city_loop cities w city)
      | _ \<Rightarrow> Inl AttributeError)"

section \<open>shape\_population\<close>

type_synonym pop_est = "string \<rightharpoonup> string \<times> string"

definition shape_population ::
  "pop_est \<Rightarrow> wrangler \<Rightarrow> string \<Rightarrow> pyval \<Rightarrow> error + (pyval \<times> wrangler)" where
  \<comment> \<open>the key of the lookup is the literal \<^verbatim>\<open>'name'\<close>; a value of \<^verbatim>\<open>pop_est\<close> is the list
      \<^verbatim>\<open>[row[2], row[4]]\<close>\<close>
  "shape_population pe w name popul =
     (case popul of
        PStr p \<Rightarrow>
          (case py_int p of
             None \<Rightarrow> Inl ValueError
           | Some osm_pop \<Rightarrow>
               (let pop_2016 = (case pe ''name'' of
                                  None \<Rightarrow> PInt osm_pop
                                | Some (census, estimate) \<Rightarrow> PList [census, estimate])
                in if pop_2016 \<noteq> PInt osm_pop
                   then Inr (pop_2016,
                             w\<lparr>cleaned_population := cleaned_population w @ [(name, osm_pop, pop_2016)]\<rparr>)
                   else Inr (pop_2016, w)))
      | _ \<Rightarrow> Inl TypeError)"

section \<open>Elements and rows\<close>

text \<open>
  An element as \<^verbatim>\<open>get_element\<close> yields it: its attribute dictionary and its children in
  document order, each child with its tag name and attribute dictionary. A dictionary is
  an association list read with \<^const>\<open>map_of\<close>.
\<close>

type_synonym attribs = "(string \<times> string) list"

record element =
  attrib :: attribs
  children :: "(string \<times> attribs) list"

definition findall_tag :: "element \<Rightarrow> attribs list" where
  \<comment> \<open>\<^verbatim>\<open>element.findall("./tag")\<close>\<close>
  "findall_tag el = map snd (filter (\<lambda>c. fst c = ''tag'') (children el))"

definition findall_k :: "element \<Rightarrow> string \<Rightarrow> attribs list" where
  \<comment> \<open>\<^verbatim>\<open>element.findall("./tag[@k='...']")\<close>\<close>
  "findall_k el key = filter (\<lambda>a. map_of a ''k'' = Some key) (findall_tag el)"

definition get_attr :: "attribs \<Rightarrow> string \<Rightarrow> pyval" where
  \<comment> \<open>\<^verbatim>\<open>child.get(key)\<close>\<close>
  "get_attr a key = (case map_of a key of None \<Rightarrow> PNone | Some s \<Rightarrow> PStr s)"

fun dict_set :: "string \<Rightarrow> pyval \<Rightarrow> (string \<times> pyval) list \<Rightarrow> (string \<times> pyval) list" where
  \<comment> \<open>\<^verbatim>\<open>d[key] = value\<close>\<close>
  "dict_set key val [] = [(key, val)]"
| "dict_set key val ((k, v) # d) =
     (if k = key then (k, val) # d else (k, v) # dict_set key val d)"

definition writerow :: "string list \<Rightarrow> (string \<times> pyval) list \<Rightarrow> pyval list option" where
  \<comment> \<open>\<^verbatim>\<open>csv.DictWriter.writerow\<close>: ValueError (\<^const>\<open>None\<close>) on a key that is no field name,
      else the row in the order of the field names, \<^verbatim>\<open>''\<close> for a missing key\<close>
  "writerow fieldnames d =
     (if list_all (\<lambda>k. k \<in> set fieldnames) (map fst d)
      then Some (map (\<lambda>f. case map_of d f of None \<Rightarrow> PStr [] | Some v \<Rightarrow> v) fieldnames)
      else None)"

definition node_fieldnames :: "string list" where
  "node_fieldnames =
     [''lat'', ''uid'', ''lon'', ''timestamp'', ''user'', ''id'', ''changeset'', ''version'']"

definition tag_fieldnames :: "string list" where
  "tag_fieldnames = [''id'', ''k'', ''v'']"

section \<open>process\_data\<close>

record run =
  self :: wrangler
  exemption_count :: nat
  count_tags :: nat
  count_tags_cleaned :: nat
  node_rows :: "pyval list list"
  tag_rows :: "pyval list list"

definition clean_tag ::
  "geocoder \<Rightarrow> pop_est \<Rightarrow> wrangler \<Rightarrow> element \<Rightarrow> pyval \<Rightarrow> pyval
     \<Rightarrow> error + (pyval \<times> bool \<times> wrangler)" where
  \<comment> \<open>the \<^verbatim>\<open>if k == ... elif\<close> chain of the loop body: the value of \<^verbatim>\<open>new\<close>, whether
      \<^verbatim>\<open>child.attrib['v']\<close> is assigned, and the wrangler after the call\<close>
  "clean_tag geo pe w el k v =
     (if k = PStr ''addr:postcode'' then
        (case shape_zipcode geo w v (map_of (attrib el) ''lat'') (map_of (attrib el) ''lon'') of
           Inl err \<Rightarrow> Inl err
         | Inr (new, w') \<Rightarrow> Inr (new, True, w'))
      else if k = PStr ''addr:city'' then
        (case shape_city w v of
           Inl err \<Rightarrow> Inl err
         | Inr (new, w') \<Rightarrow> Inr (new, True, w'))
      else if k = PStr ''addr:street'' then
        (case v of
           PStr street \<Rightarrow>
             (case shape_streetname w street of
                Inl err \<Rightarrow> Inl err
              | Inr (new, w') \<Rightarrow> Inr (PStr new, True, w'))
         | _ \<Rightarrow> Inl TypeError)
      else if k = PStr ''population'' then
        (case findall_k el ''name'' of
           [] \<Rightarrow> Inl IndexError
         | a # _ \<Rightarrow>
             (case map_of a ''v'' of
                None \<Rightarrow> Inl KeyError
              | Some city_name \<Rightarrow>
                  (case shape_population pe w city_name v of
                     Inl err \<Rightarrow> Inl err
                   | Inr (new, w') \<Rightarrow> Inr (new, True, w'))))
      else Inr (PNone, False, w))"

definition process_child ::
  "geocoder \<Rightarrow> pop_est \<Rightarrow> element \<Rightarrow> string \<Rightarrow> attribs \<Rightarrow> run \<Rightarrow> error + run" where
  \<comment> \<open>one round of \<^verbatim>\<open>for child in element.findall("./tag")\<close>\<close>
  "process_child geo pe el element_id child r =
     (let d = dict_set ''id'' (PStr element_id) (map (\<lambda>(key, s). (key, PStr s)) child);
          k = get_attr child ''k'';
          v = get_attr child ''v'';
          r = r\<lparr>count_tags := count_tags r + 1\<rparr>
      in case clean_tag geo pe (self r) el k v of
           Inl err \<Rightarrow> Inl err
         | Inr (new, assigned, w') \<Rightarrow>
             (let d = (if assigned then dict_set ''v'' new d else d);
                  r = r\<lparr>self := w'\<rparr>;
                  r = (if new \<noteq> v then r\<lparr>count_tags_cleaned := count_tags_cleaned r + 1\<rparr> else r)
              in case writerow tag_fieldnames d of
                   None \<Rightarrow> Inr (r\<lparr>exemption_count := exemption_count r + 1\<rparr>)
                 | Some row \<Rightarrow> Inr (r\<lparr>tag_rows := tag_rows r @ [row]\<rparr>)))"

fun process_children ::
  "geocoder \<Rightarrow> pop_est \<Rightarrow> element \<Rightarrow> string \<Rightarrow> attribs list \<Rightarrow> run \<Rightarrow> error + run" where
  "process_children geo pe el element_id [] r = Inr r"
| "process_children geo pe el element_id (child # rest) r =
     (case process_child geo pe el element_id child r of
        Inl err \<Rightarrow> Inl err
      | Inr r' \<Rightarrow> process_children geo pe el element_id rest r')"

definition process_element :: "geocoder \<Rightarrow> pop_est \<Rightarrow> element \<Rightarrow> run \<Rightarrow> error + run" where
  \<comment> \<open>one round of \<^verbatim>\<open>for element in self.get_element()\<close>\<close>
  "process_element geo pe el r =
     (case map_of (attrib el) ''id'' of
        None \<Rightarrow> Inl KeyError
      | Some element_id \<Rightarrow>
          (case writerow node_fieldnames (map (\<lambda>(key, s). (key, PStr s)) (attrib el)) of
             None \<Rightarrow> Inr (r\<lparr>exemption_count := exemption_count r + 1\<rparr>)
           | Some row \<Rightarrow>
               (let r = r\<lparr>node_rows := node_rows r @ [row]\<rparr>
                in if length (children el) = 0 then Inr r
                   else process_children geo pe el element_id (findall_tag el) r)))"

fun process_elements :: "geocoder \<Rightarrow> pop_est \<Rightarrow> element list \<Rightarrow> run \<Rightarrow> error + run" where
  "process_elements geo pe [] r = Inr r"
| "process_elements geo pe (el # els) r =
     (case process_element geo pe el r of
        Inl err \<Rightarrow> Inl err
      | Inr r' \<Rightarrow> process_elements geo pe els r')"

definition process_data :: "geocoder \<Rightarrow> pop_est \<Rightarrow> wrangler \<Rightarrow> element list \<Rightarrow> error + run" where
  \<comment> \<open>the run over the \<^verbatim>\<open>node\<close> elements of the document, after \<^verbatim>\<open>reset_data_files\<close> has
      written the two header rows\<close>
  "process_data geo pe w els =
     process_elements geo pe els
       \<lparr>self = w, exemption_count = 0, count_tags = 0, count_tags_cleaned = 0,
        node_rows = [map PStr node_fieldnames], tag_rows = [map PStr tag_fieldnames]\<rparr>"

section \<open>audit\_population\<close>

text \<open>
  The auditor's \<^verbatim>\<open>audit_population\<close>. The variable \<^verbatim>\<open>name\<close> holds the list that
  \<^verbatim>\<open>findall\<close> returned until it is overwritten with the name tag's value, and
  \<^verbatim>\<open>popul_2016\<close> is a local variable of the function that keeps its value from one
  element to the next: it is unbound (\<^const>\<open>None\<close>) until its first assignment.
\<close>

datatype name_value = NameList "attribs list" | Name string

type_synonym popul_row = "name_value \<times> string \<times> string"

fun audit_population_loop ::
  "pop_est \<Rightarrow> element list \<Rightarrow> (pyval \<times> string) option \<Rightarrow> popul_row list
     \<Rightarrow> error + popul_row list" where
  "audit_population_loop pe [] popul_2016 popul_data = Inr popul_data"
| "audit_population_loop pe (el # els) popul_2016 popul_data =
     (case findall_k el ''population'' of
        [] \<Rightarrow> audit_population_loop pe els popul_2016 popul_data
      | p # _ \<Rightarrow>
          (case map_of p ''v'' of
             None \<Rightarrow> Inl KeyError
           | Some popul \<Rightarrow>
               (case findall_k el ''name'' of
                  [] \<Rightarrow>
                    (case popul_2016 of
                       None \<Rightarrow> Inl UnboundLocalError
                     | Some (_, estimate) \<Rightarrow>
                         audit_population_loop pe els popul_2016
                           (popul_data @ [(NameList [], popul, estimate)]))
                | n # _ \<Rightarrow>
                    (case map_of n ''v'' of
                       None \<Rightarrow> Inl KeyError
                     | Some name \<Rightarrow>
                         (let new_2016 =
                                (case pe name of
                                   None \<Rightarrow> (PInt 0, popul)
                                 | Some (census, estimate) \<Rightarrow> (PStr census, estimate))
                          in audit_population_loop pe els (Some new_2016)
                               (popul_data @ [(Name name, popul, snd new_2016)]))))))"

definition audit_population :: "pop_est \<Rightarrow> element list \<Rightarrow> error + popul_row list" where
  "audit_population pe els = audit_population_loop pe els None []"

section \<open>Normalized street names\<close>

text \<open>
  What it is for a street name to be already in the form \<^verbatim>\<open>shape_streetname\<close> produces: an
  ASCII string with no \<^verbatim>\<open>#\<close> followed by a word character and no white space at either
  end, whose tokens (split at single spaces) are capitalized, neither begin nor end with
  a full stop and are, ignoring case, none of the abbreviations the type loop can match;
  the first token is not a number and not one of the letters \<^verbatim>\<open>N\<close>, \<^verbatim>\<open>S\<close>, \<^verbatim>\<open>E\<close>, \<^verbatim>\<open>W\<close>;
  and the last token is a direction only if the first one is a direction word.
\<close>

fun pound_word :: "string \<Rightarrow> bool" where
  "pound_word [] = False"
| "pound_word [c] = False"
| "pound_word (c # d # cs) = ((c = CHR ''#'' \<and> is_word d) \<or> pound_word (d # cs))"

definition capitalized :: "string \<Rightarrow> bool" where
  "capitalized t =
     (case t of [] \<Rightarrow> True | c # cs \<Rightarrow> \<not> is_lower c \<and> list_all (\<lambda>d. \<not> is_upper d) cs)"

definition trimmed :: "(char \<Rightarrow> bool) \<Rightarrow> string \<Rightarrow> bool" where
  "trimmed p s \<longleftrightarrow> s = [] \<or> (\<not> p (hd s) \<and> \<not> p (last s))"

definition abbreviations :: "string list" where
  "abbreviations =
     [''blvd'', ''st'', ''ave'', ''hwy'', ''cir'', ''ct'', ''cv'', ''dr'', ''ln'', ''rd'', ''pkwy'']"

definition normalized :: "string \<Rightarrow> bool" where
  "normalized s \<longleftrightarrow>
     (let ts = split_on CHR '' '' s
      in list_all is_ascii s \<and> \<not> pound_word s \<and> trimmed is_space s
         \<and> list_all (\<lambda>t. capitalized t \<and> trimmed (\<lambda>c. c = CHR ''.'') t
                          \<and> lower t \<notin> set abbreviations) ts
         \<and> \<not> isdigit (hd ts)
         \<and> hd ts \<notin> set [''N'', ''S'', ''E'', ''W'']
         \<and> (hd ts \<in> set directions
              \<or> (last ts \<notin> set [''N'', ''S'', ''E'', ''W''] \<and> last ts \<notin> set directions)))"


section \<open>Postal codes with the regional prefix\<close>

text \<open>The test of \<^verbatim>\<open>shape_zipcode\<close>'s first branch: there is a run of five digits and the
  first run starts with \<^verbatim>\<open>7\<close>.\<close>

definition regional :: "string \<Rightarrow> bool" where
  "regional zcode \<longleftrightarrow>
     (let new_zcode = findall_d5 (filter is_ascii zcode)
      in new_zcode \<noteq> [] \<and> hd (hd new_zcode) = CHR ''7'')"


section \<open>Where a run raises and what it tallies\<close>












section \<open>Example inputs\<close>

definition no_service :: geocoder where
  \<comment> \<open>a geocoding service that cannot be reached\<close>
  "no_service la lo = NoResponse"

definition tag_kv :: "string \<Rightarrow> string \<Rightarrow> string \<times> attribs" where
  \<comment> \<open>the child \<^verbatim>\<open><tag k="..." v="..."/>\<close>\<close>
  "tag_kv k v = (''tag'', [(''k'', k), (''v'', v)])"

definition node :: "string \<Rightarrow> (string \<times> attribs) list \<Rightarrow> element" where
  \<comment> \<open>the element \<^verbatim>\<open><node id="...">\<close> with the given children\<close>
  "node i cs = \<lparr>attrib = [(''id'', i)], children = cs\<rparr>"

definition austin_est :: pop_est where
  "austin_est = [''Austin'' \<mapsto> (''790390'', ''926426'')]"







section \<open>Street names: the examples\<close>

text \<open>
  C2. \<^verbatim>\<open>shape_streetname\<close> turns \<^verbatim>\<open>15000 W. William Cannon Blvd #300\<close> into
  \<^verbatim>\<open>West William Cannon Boulevard\<close> and \<^verbatim>\<open>123 N Lamar\<close> into \<^verbatim>\<open>North Lamar\<close>: the leading
  number is dropped, the direction is expanded and put first, and in both cases a line
  is appended to the street log.
\<close>

theorem shape_streetname_examples:
  "shape_streetname w ''15000 W. William Cannon Blvd #300'' =
     Inr (''West William Cannon Boulevard'',
          w\<lparr>cleaned_streets := cleaned_streets w @
             [(''15000 W. William Cannon Blvd #300'', ''West William Cannon Boulevard'')]\<rparr>)
   \<and> shape_streetname w ''123 N Lamar'' =
     Inr (''North Lamar'',
          w\<lparr>cleaned_streets := cleaned_streets w @ [(''123 N Lamar'', ''North Lamar'')]\<rparr>)"
  by code_simp

text \<open>
  C10. \<^verbatim>\<open>shape_streetname\<close> is not total. On \<^verbatim>\<open>123\<close> the only token is a number; once it is
  dropped the token list is empty, the direction loop reads \<^verbatim>\<open>street_elements[0]\<close>, and
  the call ends in IndexError.
\<close>

theorem shape_streetname_index_error:
  "map strip_dot (split_on CHR '' '' (strip (sub_pound ''123''))) = [''123'']
   \<and> isdigit ''123''
   \<and> correct_direction [0, int (length (drop 1 [''123''])) - 1] (drop 1 [''123'']) = Inl IndexError
   \<and> shape_streetname w ''123'' = Inl IndexError"
  by code_simp

text \<open>
  C8. The comments of \<^verbatim>\<open>shape_streetname\<close> keep \<^verbatim>\<open>orig_street\<close> for the check whether the
  name was changed in any way, but the check compares the name after the \<^verbatim>\<open>#\<close> part was
  deleted. On \<^verbatim>\<open>Main #300\<close> the result \<^verbatim>\<open>Main\<close> differs from the input and no line is
  written to the log.
\<close>

theorem shape_streetname_unlogged_change:
  "shape_streetname w ''Main #300'' = Inr (''Main'', w) \<and> ''Main'' \<noteq> ''Main #300''"
  by code_simp

section \<open>Street names: the street type loop\<close>

lemma py_index_nat: "i < length xs \<Longrightarrow> py_index xs (int i) = Some (xs ! i)"
  by (simp add: py_index_def)

lemma py_pop_nat:
  "i < length xs \<Longrightarrow> py_pop xs (int i) = Some (xs ! i, take i xs @ drop (Suc i) xs)"
  by (simp add: py_pop_def)

lemma py_insert_end: "py_insert (int (length xs)) v xs = xs @ [v]"
  by (simp add: py_insert_def)

lemma py_insert_after_pop:
  assumes "i < length xs"
  shows "py_insert (int (length xs) - 1) v (take i xs @ drop (Suc i) xs)
         = take i xs @ drop (Suc i) xs @ [v]"
proof -
  have eq: "int (length xs) - 1 = int (length (take i xs @ drop (Suc i) xs))"
    using assms by simp
  show ?thesis
    unfolding eq by (simp only: py_insert_end append_assoc)
qed

lemma correct_type_unfold:
  assumes "i < length xs"
  shows "correct_type (i # is) xs =
     (case street_types_d (lower (xs ! i)) of
        None \<Rightarrow> correct_type is xs
      | Some t \<Rightarrow>
          if lower (xs ! i) = ''hwy'' then Inr (xs[i := t])
          else correct_type is (take i xs @ drop (Suc i) xs @ [t]))"
  unfolding correct_type.simps py_index_nat [OF assms] py_pop_nat [OF assms] Let_def
    option.case prod.case py_insert_after_pop [OF assms]
  by (cases "street_types_d (lower (xs ! i))") simp_all


lemma correct_type_total:
  "list_all (\<lambda>i. i < length xs) is \<Longrightarrow> \<exists>ys. correct_type is xs = Inr ys \<and> length ys = length xs"
proof (induction "is" arbitrary: xs)
  case Nil
  then show ?case by simp
next
  case (Cons i "is")
  then have i: "i < length xs" and rest: "list_all (\<lambda>i. i < length xs) is" by simp_all
  note unf = correct_type_unfold [OF i, of "is"]
  show ?case
  proof (cases "street_types_d (lower (xs ! i))")
    case None
    then show ?thesis using Cons.IH [OF rest] unf by simp
  next
    case (Some t)
    show ?thesis
    proof (cases "lower (xs ! i) = ''hwy''")
      case True
      then show ?thesis using Some unf by simp
    next
      case False
      let ?ys = "take i xs @ drop (Suc i) xs @ [t]"
      have len: "length ?ys = length xs" using i by simp
      have "list_all (\<lambda>i. i < length ?ys) is" unfolding len by (rule rest)
      from Cons.IH [OF this] obtain ys where
        ys: "correct_type is ?ys = Inr ys" "length ys = length ?ys" by blast
      have "correct_type (i # is) xs = correct_type is ?ys"
        using Some False unf by simp
      with ys len show ?thesis by simp
    qed
  qed
qed

lemma not_upper_lower_char: "\<not> is_upper (lower_char c)"
  unfolding lower_char_def is_upper_def code_def by auto

lemma lower_not_IH: "lower e \<noteq> ''IH''"
proof
  assume "lower e = ''IH''"
  then obtain a b where "e = [a, b]" "lower_char a = CHR ''I''"
    by (auto simp: lower_def)
  then have "is_upper (lower_char a)" by (simp add: is_upper_def code_def)
  then show False by (simp add: not_upper_lower_char)
qed

lemma street_types_None:
  "k \<notin> set [''blvd'', ''st'', ''ave'', ''hwy'', ''ih'', ''cir'', ''ct'', ''cv'', ''dr'', ''ln'',
             ''rd'', ''pkwy''] \<Longrightarrow> k \<noteq> ''IH'' \<Longrightarrow> street_types_d k = None"
  unfolding street_types_d_def by simp

lemma street_types_Some:
  "(k, t) \<in> set
      [(''blvd'', ''Boulevard''), (''st'', ''Street''), (''ave'', ''Avenue''),
       (''cir'', ''Circle''), (''ct'', ''Court''), (''cv'', ''Cove''), (''dr'', ''Drive''),
       (''ln'', ''Lane''), (''rd'', ''Road''), (''pkwy'', ''Parkway'')]
   \<Longrightarrow> street_types_d k = Some t \<and> k \<noteq> ''hwy''"
  unfolding street_types_d_def by (elim disjE rev_mp) (simp_all del: set_simps add: list.set)

lemma street_types_hwy: "street_types_d ''hwy'' = Some ''Highway''"
  by code_simp

text \<open>
  C1, as amended. At a position \<open>i\<close> inside the token list the type loop compares the
  lower-cased token with the keys of the table. On \<^verbatim>\<open>hwy\<close> the token is replaced in place
  by \<^verbatim>\<open>Highway\<close> and the loop ends. On one of the ten other lower-case keys the token is
  removed and its long form is appended after the last token, and the loop goes on with
  the next position of the changed list. A token that is, lower-cased, none of the
  twelve abbreviations is left alone. The loop over the positions \<open>0, \<dots>, n - 1\<close> never
  fails and keeps the number of tokens.
\<close>

theorem street_type_pass:
  assumes "i < length xs"
  shows "(lower (xs ! i) = ''hwy'' \<longrightarrow> correct_type (i # is) xs = Inr (xs[i := ''Highway'']))
    \<and> (\<forall>t. (lower (xs ! i), t) \<in> set
            [(''blvd'', ''Boulevard''), (''st'', ''Street''), (''ave'', ''Avenue''),
             (''cir'', ''Circle''), (''ct'', ''Court''), (''cv'', ''Cove''), (''dr'', ''Drive''),
             (''ln'', ''Lane''), (''rd'', ''Road''), (''pkwy'', ''Parkway'')]
          \<longrightarrow> correct_type (i # is) xs = correct_type is (take i xs @ drop (Suc i) xs @ [t]))
    \<and> (lower (xs ! i) \<notin> set
            [''blvd'', ''st'', ''ave'', ''hwy'', ''ih'', ''cir'', ''ct'', ''cv'', ''dr'', ''ln'',
             ''rd'', ''pkwy'']
          \<longrightarrow> correct_type (i # is) xs = correct_type is xs)
    \<and> (\<exists>ys. correct_type [0 ..< length xs] xs = Inr ys \<and> length ys = length xs)"
proof (intro conjI allI impI)
  note unf = correct_type_unfold [OF assms, of "is"]
  {
    assume "lower (xs ! i) = ''hwy''"
    then show "correct_type (i # is) xs = Inr (xs[i := ''Highway''])"
      using unf street_types_hwy by simp
  next
    fix t
    assume "(lower (xs ! i), t) \<in> set
            [(''blvd'', ''Boulevard''), (''st'', ''Street''), (''ave'', ''Avenue''),
             (''cir'', ''Circle''), (''ct'', ''Court''), (''cv'', ''Cove''), (''dr'', ''Drive''),
             (''ln'', ''Lane''), (''rd'', ''Road''), (''pkwy'', ''Parkway'')]"
    then have "street_types_d (lower (xs ! i)) = Some t \<and> lower (xs ! i) \<noteq> ''hwy''"
      by (rule street_types_Some)
    then show "correct_type (i # is) xs = correct_type is (take i xs @ drop (Suc i) xs @ [t])"
      using unf by simp
  next
    assume "lower (xs ! i) \<notin> set
            [''blvd'', ''st'', ''ave'', ''hwy'', ''ih'', ''cir'', ''ct'', ''cv'', ''dr'', ''ln'',
             ''rd'', ''pkwy'']"
    then have "street_types_d (lower (xs ! i)) = None"
      using lower_not_IH by (rule street_types_None)
    then show "correct_type (i # is) xs = correct_type is xs"
      using unf by simp
  next
    have "list_all (\<lambda>i. i < length xs) [0 ..< length xs]" by (simp add: list_all_iff)
    then show "\<exists>ys. correct_type [0 ..< length xs] xs = Inr ys \<and> length ys = length xs"
      by (rule correct_type_total)
  }
qed

text \<open>The theorem at the second token of \<^verbatim>\<open>Main St Apt\<close>.\<close>

theorem street_type_pass_witness:
  "(1::nat) < length [''Main'', ''St'', ''Apt'']
   \<and> correct_type [1, 2] [''Main'', ''St'', ''Apt'']
       = correct_type [2] (take 1 [''Main'', ''St'', ''Apt''] @ drop (Suc 1) [''Main'', ''St'', ''Apt''] @ [''Street''])"
proof -
  have h: "(1::nat) < length [''Main'', ''St'', ''Apt'']" by simp
  have m: "(lower ([''Main'', ''St'', ''Apt''] ! 1), ''Street'') \<in> set
            [(''blvd'', ''Boulevard''), (''st'', ''Street''), (''ave'', ''Avenue''),
             (''cir'', ''Circle''), (''ct'', ''Court''), (''cv'', ''Cove''), (''dr'', ''Drive''),
             (''ln'', ''Lane''), (''rd'', ''Road''), (''pkwy'', ''Parkway'')]"
    by code_simp
  note step = street_type_pass [OF h, of "[2]", THEN conjunct2, THEN conjunct1, THEN spec, THEN mp, OF m]
  show ?thesis by (rule conjI [OF h step])
qed

text \<open>
  Against C1 as the specification states it: in \<^verbatim>\<open>Main St Apt\<close> the long form \<^verbatim>\<open>Street\<close>
  lands after the last token \<^verbatim>\<open>Apt\<close>, not before it.
\<close>

theorem street_type_appended_last:
  "correct_type [0 ..< 3] [''Main'', ''St'', ''Apt''] = Inr [''Main'', ''Apt'', ''Street'']
   \<and> shape_streetname w0 ''Main St Apt'' =
       Inr (''Main Apt Street'',
            w0\<lparr>cleaned_streets := [(''Main St Apt'', ''Main Apt Street'')]\<rparr>)"
  by code_simp

section \<open>Street names: normalized names are kept\<close>

lemma sub_pound_id: "\<not> pound_word s \<Longrightarrow> sub_pound s = s"
  by (induction s rule: sub_pound.induct) auto

lemma strip_chars_id: "trimmed p s \<Longrightarrow> strip_chars p s = s"
proof (cases "s = []")
  case True
  then show ?thesis by (simp add: strip_chars_def)
next
  case False
  assume "trimmed p s"
  with False have h: "\<not> p (hd s)" and l: "\<not> p (last s)" by (simp_all add: trimmed_def)
  from False h have a: "dropWhile p s = s" by (cases s) simp_all
  from False l have b: "dropWhile p (rev s) = rev s"
    by (cases "rev s") (simp_all add: last_rev [symmetric] del: last_rev)
  show ?thesis by (simp add: strip_chars_def a b)
qed

lemma split_on_not_Nil: "split_on sep s \<noteq> []"
  by (induction s) (auto split: list.splits)

lemma join_Cons_head: "join sep ((c # t) # ts) = c # join sep (t # ts)"
  by (cases ts) simp_all

lemma join_split_on: "join [sep] (split_on sep s) = s"
proof (induction s)
  case Nil
  then show ?case by simp
next
  case (Cons c s)
  obtain t ts where ts: "split_on sep s = t # ts"
    using split_on_not_Nil [of sep s] by (cases "split_on sep s") auto
  show ?case
    using Cons ts by (simp add: join_Cons_head)
qed

lemma lower_char_id: "\<not> is_upper c \<Longrightarrow> lower_char c = c"
  by (simp add: lower_char_def)

lemma upper_char_id: "\<not> is_lower c \<Longrightarrow> upper_char c = c"
  by (simp add: upper_char_def)

lemma capitalize_id: "capitalized t \<Longrightarrow> capitalize t = t"
  by (cases t) (auto simp: capitalized_def capitalize_def upper_char_id lower_char_id
      list_all_iff intro: map_idI)

lemma direc_d_None: "e \<notin> set [''N'', ''S'', ''E'', ''W''] \<Longrightarrow> direc_d e = None"
  unfolding direc_d_def by simp

lemma street_types_None_lower:
  assumes "lower t \<notin> set abbreviations"
  shows "street_types_d (lower t) = None"
proof -
  have "lower t \<noteq> ''IH''" by (rule lower_not_IH)
  with assms show ?thesis
    unfolding street_types_d_def abbreviations_def by simp
qed

lemma correct_type_id:
  "list_all (\<lambda>t. lower t \<notin> set abbreviations) ts \<Longrightarrow> list_all (\<lambda>i. i < length ts) is
   \<Longrightarrow> correct_type is ts = Inr ts"
proof (induction "is")
  case Nil
  then show ?case by simp
next
  case (Cons i "is")
  then have i: "i < length ts" by simp
  with Cons.prems(1) have "lower (ts ! i) \<notin> set abbreviations"
    by (simp add: list_all_length)
  then have "street_types_d (lower (ts ! i)) = None" by (rule street_types_None_lower)
  then show ?case
    using Cons correct_type_unfold [OF i, of "is"] by simp
qed

lemma correct_direction_id:
  assumes ne: "ts \<noteq> []"
    and hd_cap: "capitalize (hd ts) = hd ts" and last_cap: "capitalize (last ts) = last ts"
    and hd_letter: "hd ts \<notin> set [''N'', ''S'', ''E'', ''W'']"
    and dir: "hd ts \<in> set directions
              \<or> (last ts \<notin> set [''N'', ''S'', ''E'', ''W''] \<and> last ts \<notin> set directions)"
  shows "correct_direction [0, int (length ts) - 1] ts = Inr ts"
proof -
  from ne obtain t rest where ts: "ts = t # rest" by (cases ts) auto
  have i0: "py_index ts 0 = Some (hd ts)" using ts by (simp add: py_index_def)
  have p0: "py_pop ts 0 = Some (hd ts, tl ts)" using ts by (simp add: py_pop_def)
  have ins: "py_insert 0 (hd ts) (tl ts) = ts" using ts by (simp add: py_insert_def)
  have il: "py_index ts (int (length ts) - 1) = Some (last ts)"
    using ne by (simp add: py_index_def last_conv_nth nat_diff_distrib')
  have d0: "direc_d (hd ts) = None" using hd_letter by (rule direc_d_None)
  show ?thesis
  proof (cases "hd ts \<in> set directions")
    case True
    then show ?thesis using i0 p0 ins d0 hd_cap by simp
  next
    case False
    with dir have l: "last ts \<notin> set [''N'', ''S'', ''E'', ''W'']" "last ts \<notin> set directions"
      by simp_all
    from l(1) have dl: "direc_d (last ts) = None" by (rule direc_d_None)
    show ?thesis using False i0 il d0 dl l(2) hd_cap last_cap by simp
  qed
qed

text \<open>
  C7, as amended. A normalized street name is returned unchanged, and nothing is
  written to the log.
\<close>

theorem shape_streetname_normalized:
  assumes "normalized s"
  shows "shape_streetname w s = Inr (s, w)"
proof -
  let ?ts = "split_on CHR '' '' s"
  from assms have pw: "\<not> pound_word s" and tr: "trimmed is_space s"
    and toks: "list_all (\<lambda>t. capitalized t \<and> trimmed (\<lambda>c. c = CHR ''.'') t
                          \<and> lower t \<notin> set abbreviations) ?ts"
    and nd: "\<not> isdigit (hd ?ts)"
    and hl: "hd ?ts \<notin> set [''N'', ''S'', ''E'', ''W'']"
    and dir: "hd ?ts \<in> set directions
              \<or> (last ?ts \<notin> set [''N'', ''S'', ''E'', ''W''] \<and> last ?ts \<notin> set directions)"
    unfolding normalized_def Let_def by blast+
  have ne: "?ts \<noteq> []" by (rule split_on_not_Nil)
  have street: "strip (sub_pound s) = s"
    using pw tr by (simp add: sub_pound_id strip_def strip_chars_id)
  have dots: "map strip_dot ?ts = ?ts"
    using toks by (auto simp: list_all_iff strip_dot_def strip_chars_id intro: map_idI)
  have caps: "map capitalize ?ts = ?ts"
    using toks by (auto simp: list_all_iff capitalize_id intro: map_idI)
  have i0: "py_index ?ts 0 = Some (hd ?ts)"
    using ne by (cases ?ts) (simp_all add: py_index_def)
  have hd_in: "hd ?ts \<in> set ?ts" and last_in: "last ?ts \<in> set ?ts" using ne by simp_all
  have hc: "capitalize (hd ?ts) = hd ?ts" and lc: "capitalize (last ?ts) = last ?ts"
    using toks hd_in last_in by (auto simp: list_all_iff capitalize_id)
  have d: "correct_direction [0, int (length ?ts) - 1] ?ts = Inr ?ts"
    using ne hc lc hl dir by (rule correct_direction_id)
  have "list_all (\<lambda>t. lower t \<notin> set abbreviations) ?ts"
    using toks by (simp add: list_all_iff)
  moreover have "list_all (\<lambda>i. i < length ?ts) [0 ..< length ?ts]" by (simp add: list_all_iff)
  ultimately have t: "correct_type [0 ..< length ?ts] ?ts = Inr ?ts" by (rule correct_type_id)
  have j: "join '' '' ?ts = s" by (rule join_split_on)
  have keep: "(if isdigit (hd ?ts) then drop 1 ?ts else ?ts) = ?ts" using nd by simp
  show ?thesis
    unfolding shape_streetname_def Let_def street dots i0 option.case keep d sum.case t caps j
    by simp
qed

text \<open>The theorem at \<^verbatim>\<open>West William Cannon Boulevard\<close>.\<close>

theorem shape_streetname_normalized_witness:
  "normalized ''West William Cannon Boulevard''
   \<and> shape_streetname w0 ''West William Cannon Boulevard'' = Inr (''West William Cannon Boulevard'', w0)"
proof -
  have h: "normalized ''West William Cannon Boulevard''" by code_simp
  show ?thesis by (rule conjI [OF h shape_streetname_normalized [OF h]])
qed

text \<open>
  Against C7 as the specification states it: \<^verbatim>\<open>12 34 Main\<close> becomes \<^verbatim>\<open>34 Main\<close>, and
  \<^verbatim>\<open>34 Main\<close> becomes \<^verbatim>\<open>Main\<close>, since each call drops one leading number.
\<close>

theorem shape_streetname_not_idempotent:
  "shape_streetname w0 ''12 34 Main'' =
     Inr (''34 Main'', w0\<lparr>cleaned_streets := [(''12 34 Main'', ''34 Main'')]\<rparr>)
   \<and> shape_streetname w0 ''34 Main'' =
     Inr (''Main'', w0\<lparr>cleaned_streets := [(''34 Main'', ''Main'')]\<rparr>)
   \<and> ''Main'' \<noteq> ''34 Main''"
  by code_simp

section \<open>Postal codes\<close>

lemma get_zcode_log:
  "get_zcode geo w lat lon = Inr (new, w') \<Longrightarrow> cleaned_zipcodes w' = cleaned_zipcodes w"
  unfolding get_zcode_def Let_def
  by (auto split: option.splits if_splits http_result.splits sum.splits list.splits)

lemma get_zcode_absent:
  "lat = None \<or> lon = None \<Longrightarrow> get_zcode geo w lat lon = Inr (PNone, w)"
  unfolding get_zcode_def by (auto split: option.splits)

text \<open>
  C6, as amended. Whenever \<^verbatim>\<open>shape_zipcode\<close> returns, it has appended one line to the
  postal code log, with the value it was given (non-ASCII characters removed) and the
  value it returns. With a regional code in the value the coordinates are not looked at.
  Without one, a missing coordinate gives \<^verbatim>\<open>None\<close>, with that line in the log and no
  request sent.
\<close>

theorem shape_zipcode_log:
  "(\<forall>new w'. shape_zipcode geo w (PStr zcode) lat lon = Inr (new, w')
       \<longrightarrow> cleaned_zipcodes w' = cleaned_zipcodes w @ [(filter is_ascii zcode, new)])
   \<and> (regional zcode
       \<longrightarrow> shape_zipcode geo w (PStr zcode) lat lon
           = Inr (PStr (hd (findall_d5 (filter is_ascii zcode))),
                  w\<lparr>cleaned_zipcodes := cleaned_zipcodes w @
                      [(filter is_ascii zcode, PStr (hd (findall_d5 (filter is_ascii zcode))))]\<rparr>))
   \<and> (\<not> regional zcode \<and> (lat = None \<or> lon = None)
       \<longrightarrow> shape_zipcode geo w (PStr zcode) lat lon
           = Inr (PNone, w\<lparr>cleaned_zipcodes := cleaned_zipcodes w @ [(filter is_ascii zcode, PNone)]\<rparr>))"
proof (intro conjI allI impI)
  fix new w'
  assume r: "shape_zipcode geo w (PStr zcode) lat lon = Inr (new, w')"
  show "cleaned_zipcodes w' = cleaned_zipcodes w @ [(filter is_ascii zcode, new)]"
  proof (cases "regional zcode")
    case True
    with r show ?thesis
      by (auto simp: shape_zipcode_def regional_def Let_def)
  next
    case False
    with r obtain w1 where g: "get_zcode geo w lat lon = Inr (new, w1)"
      and w': "w' = w1\<lparr>cleaned_zipcodes := cleaned_zipcodes w1 @ [(filter is_ascii zcode, new)]\<rparr>"
      by (auto simp: shape_zipcode_def regional_def Let_def split: sum.splits)
    from get_zcode_log [OF g] w' show ?thesis by simp
  qed
next
  assume "regional zcode"
  then show "shape_zipcode geo w (PStr zcode) lat lon
           = Inr (PStr (hd (findall_d5 (filter is_ascii zcode))),
                  w\<lparr>cleaned_zipcodes := cleaned_zipcodes w @
                      [(filter is_ascii zcode, PStr (hd (findall_d5 (filter is_ascii zcode))))]\<rparr>)"
    by (simp add: shape_zipcode_def regional_def Let_def)
next
  assume a: "\<not> regional zcode \<and> (lat = None \<or> lon = None)"
  then have "get_zcode geo w lat lon = Inr (PNone, w)" by (simp add: get_zcode_absent)
  with a show "shape_zipcode geo w (PStr zcode) lat lon
           = Inr (PNone, w\<lparr>cleaned_zipcodes := cleaned_zipcodes w @ [(filter is_ascii zcode, PNone)]\<rparr>)"
    by (auto simp: shape_zipcode_def regional_def Let_def)
qed

text \<open>The theorem at the value \<^verbatim>\<open>abc\<close> with no latitude.\<close>

theorem shape_zipcode_log_witness:
  "\<not> regional ''abc''
   \<and> shape_zipcode no_service w0 (PStr ''abc'') None (Some ''-97.74'')
       = Inr (PNone, w0\<lparr>cleaned_zipcodes := cleaned_zipcodes w0 @ [(filter is_ascii ''abc'', PNone)]\<rparr>)"
proof -
  have h: "\<not> regional ''abc''" by code_simp
  have c: "\<not> regional ''abc'' \<and> (None = (None :: string option) \<or> Some ''-97.74'' = None)"
    using h by simp
  note r = shape_zipcode_log [of no_service w0 "''abc''" None "Some ''-97.74''",
      THEN conjunct2, THEN conjunct2, THEN mp, OF c]
  show ?thesis by (rule conjI [OF h r])
qed

text \<open>
  Against C6 as the specification states it: with both coordinates missing the log line
  is written; with a latitude that is no number the call raises ValueError instead
  of returning \<^verbatim>\<open>None\<close>; and with a regional code in the value the coordinates do not
  matter.
\<close>

theorem shape_zipcode_bad_coordinates:
  "shape_zipcode no_service w0 (PStr ''abc'') None None =
     Inr (PNone, w0\<lparr>cleaned_zipcodes := [(''abc'', PNone)]\<rparr>)
   \<and> shape_zipcode no_service w0 (PStr ''abc'') (Some ''north'') (Some ''-97.74'') = Inl ValueError
   \<and> shape_zipcode no_service w0 (PStr ''78704'') None None =
     Inr (PStr ''78704'', w0\<lparr>cleaned_zipcodes := [(''78704'', PStr ''78704'')]\<rparr>)"
  by code_simp

section \<open>Population\<close>

text \<open>
  C4. \<^verbatim>\<open>shape_population\<close> is documented to update the figure to the estimate of the
  table, but it looks up the literal key \<^verbatim>\<open>'name'\<close>. With \<^verbatim>\<open>Austin\<close> in the table, the call
  for \<^verbatim>\<open>Austin\<close> returns the figure it was given, not the estimate.
\<close>

theorem shape_population_ignores_name:
  "austin_est ''Austin'' = Some (''790390'', ''926426'')
   \<and> shape_population austin_est w ''Austin'' (PStr ''790390'') = Inr (PInt 790390, w)"
  by code_simp

text \<open>
  C9. \<^verbatim>\<open>audit_population\<close> tests \<^verbatim>\<open>if name:\<close> before it reads the name, yet appends a row
  for every element with a population tag. An element with no name tag gets a row with
  the empty list as its name and the estimate left over from the element before; when
  no element before it had a name, the call raises UnboundLocalError.
\<close>

theorem audit_population_unnamed:
  "audit_population austin_est
      [node ''1'' [tag_kv ''name'' ''Austin'', tag_kv ''population'' ''800000''],
       node ''2'' [tag_kv ''population'' ''5'']] =
     Inr [(Name ''Austin'', ''800000'', ''926426''), (NameList [], ''5'', ''926426'')]
   \<and> audit_population austin_est [node ''2'' [tag_kv ''population'' ''5'']] = Inl UnboundLocalError"
  by code_simp

section \<open>process\_data\<close>

text \<open>
  C3. \<^verbatim>\<open>count_tags_cleaned\<close> is printed as the number of tags corrected, but \<^verbatim>\<open>new\<close> starts
  as \<^verbatim>\<open>None\<close> and is compared with the tag's value also when no normalizer ran. A node
  with the one tag \<^verbatim>\<open>amenity=cafe\<close> is written out unchanged and counted as corrected.
\<close>

theorem process_data_counts_plain_tag:
  "process_data no_service Map.empty w0 [node ''1'' [tag_kv ''amenity'' ''cafe'']] =
     Inr \<lparr>self = w0, exemption_count = 0, count_tags = 1, count_tags_cleaned = 1,
          node_rows = [map PStr node_fieldnames,
                       [PStr [], PStr [], PStr [], PStr [], PStr [], PStr ''1'', PStr [], PStr []]],
          tag_rows = [map PStr tag_fieldnames, [PStr ''1'', PStr ''amenity'', PStr ''cafe'']]\<rparr>"
  by code_simp










































end
